theory Spec2Isabelle
  imports Main "HOL-Library.AList" "HOL-Library.Word"
begin

unbundle bit_operations_syntax

section \<open>Python values and strings\<close>

text \<open>
  The exceptions the modelled code can raise. A function of the source that can raise
  returns \<open>error + 'a\<close>, with \<open>Inl\<close> for the exception.
\<close>

datatype error =
    NoValidIdentifierError
  | InvalidUpdateDataError
  | ValueError
  | TypeError
  | OverflowError
  | AttributeError

text \<open>
  An identifier as the code passes it around: \<open>None\<close>, a \<open>str\<close> (a path segment, a
  user name of the Authorization header) or an \<open>int\<close> (what \<open>User.valid_identifier\<close>
  returns).
\<close>

datatype pyid = PyNone | PyStr string | PyInt int

text \<open>\<open>string.split(sep)\<close> for a separator of one character: never an empty list.\<close>

fun str_split :: "char \<Rightarrow> string \<Rightarrow> string list" where
  "str_split sep [] = [[]]"
| "str_split sep (c # cs) =
     (if c = sep then [] # str_split sep cs
      else (case str_split sep cs of
              [] \<Rightarrow> [[c]]
            | w # ws \<Rightarrow> (c # w) # ws))"

text \<open>\<open>sep.join(components)\<close>.\<close>

fun str_join :: "string \<Rightarrow> string list \<Rightarrow> string" where
  "str_join sep [] = []"
| "str_join sep [x] = x"
| "str_join sep (x # y # ys) = x @ sep @ str_join sep (y # ys)"

definition is_digit :: "char \<Rightarrow> bool" where
  "is_digit c = (let n = (of_char c :: nat) in 48 \<le> n \<and> n \<le> 57)"

definition is_upper :: "char \<Rightarrow> bool" where
  "is_upper c = (let n = (of_char c :: nat) in 65 \<le> n \<and> n \<le> 90)"

definition is_lower :: "char \<Rightarrow> bool" where
  "is_lower c = (let n = (of_char c :: nat) in 97 \<le> n \<and> n \<le> 122)"

text \<open>The class \<open>\w\<close> of a Python 2 byte-string pattern compiled without flags.\<close>

definition is_word :: "char \<Rightarrow> bool" where
  "is_word c = (is_digit c \<or> is_upper c \<or> is_lower c \<or> c = CHR ''_'')"

text \<open>The characters \<open>str.strip()\<close> and \<open>int()\<close> skip.\<close>

definition is_space :: "char \<Rightarrow> bool" where
  "is_space c = (let n = (of_char c :: nat) in n = 32 \<or> (9 \<le> n \<and> n \<le> 13))"

definition digit_val :: "char \<Rightarrow> int" where
  "digit_val c = int (of_char c) - 48"

definition digit_chr :: "nat \<Rightarrow> char" where
  "digit_chr n = char_of (48 + n mod 10)"

text \<open>\<open>str(n)\<close> of a natural number, and of an \<open>int\<close>.\<close>

fun str_nat :: "nat \<Rightarrow> string" where
  "str_nat n = (if n < 10 then [digit_chr n] else str_nat (n div 10) @ [digit_chr n])"

definition str_int :: "int \<Rightarrow> string" where
  "str_int i = (if i < 0 then CHR ''-'' # str_nat (nat (- i)) else str_nat (nat i))"

text \<open>
  \<open>int(s)\<close> of a string: surrounding white space is skipped, one sign is allowed, and
  at least one decimal digit must follow; anything else raises \<open>ValueError\<close>.
\<close>

definition digits_val :: "string \<Rightarrow> int" where
  "digits_val ds = foldl (\<lambda>acc c. 10 * acc + digit_val c) 0 ds"

definition py_int :: "string \<Rightarrow> error + int" where
  "py_int s =
     (let t = rev (dropWhile is_space (rev (dropWhile is_space s)));
          (neg, ds) = (case t of
                         c # r \<Rightarrow> if c = CHR ''-'' then (True, r)
                                  else if c = CHR ''+'' then (False, r)
                                  else (False, t)
                       | [] \<Rightarrow> (False, t))
      in if ds \<noteq> [] \<and> list_all is_digit ds
         then Inr (if neg then - digits_val ds else digits_val ds)
         else Inl ValueError)"

text \<open>\<open>str(identifier)\<close> for an identifier that is not \<open>None\<close>.\<close>

fun py_str :: "pyid \<Rightarrow> string" where
  "py_str PyNone = ''None''"
| "py_str (PyStr s) = s"
| "py_str (PyInt i) = str_int i"

section \<open>Dates and times (the datetime library and ffe\_time.py)\<close>

text \<open>
  A naive \<open>datetime\<close> is represented by its position on the proleptic Gregorian time
  line: the number of microseconds since 0001-01-01T00:00:00, the quantity Python's own
  arithmetic on \<open>datetime\<close> and \<open>timedelta\<close> works with. All times of the modelled code
  are UTC, so \<open>replace(tzinfo=UTC())\<close> changes nothing of this number, and comparing two
  aware values compares the numbers. The fields of a datetime are read off the number.
\<close>

type_synonym datetime = int

definition us_per_second :: int where "us_per_second = 1000000"
definition us_per_minute :: int where "us_per_minute = 60000000"
definition us_per_hour :: int where "us_per_hour = 3600000000"
definition us_per_day :: int where "us_per_day = 86400000000"

text \<open>The last instant \<open>datetime\<close> can hold is 9999-12-31T23:59:59.999999.\<close>

definition datetime_max :: datetime where
  "datetime_max = 3652059 * us_per_day - 1"

definition valid_datetime :: "datetime \<Rightarrow> bool" where
  "valid_datetime t = (0 \<le> t \<and> t \<le> datetime_max)"

definition microsecond :: "datetime \<Rightarrow> int" where
  "microsecond t = t mod us_per_second"

definition second :: "datetime \<Rightarrow> int" where
  "second t = (t div us_per_second) mod 60"

definition minute :: "datetime \<Rightarrow> int" where
  "minute t = (t div us_per_minute) mod 60"

definition hour :: "datetime \<Rightarrow> int" where
  "hour t = (t div us_per_hour) mod 24"

text \<open>\<open>date.toordinal()\<close>: day 1 is 0001-01-01.\<close>

definition toordinal :: "datetime \<Rightarrow> int" where
  "toordinal t = t div us_per_day + 1"

definition days_before_month :: "int \<Rightarrow> int" where
  "days_before_month m = [0, 31, 59, 90, 120, 151, 181, 212, 243, 273, 304, 334] ! nat (m - 1)"

definition days_in_month :: "int \<Rightarrow> int" where
  "days_in_month m = [31, 28, 31, 30, 31, 30, 31, 31, 30, 31, 30, 31] ! nat (m - 1)"

text \<open>
  The library's conversion of an ordinal to (year, month, day), by 400-, 100-, 4- and
  1-year cycles; the month is estimated as \<open>(n + 50) >> 5\<close> and corrected when the
  estimate is too large.
\<close>

definition ord2ymd :: "int \<Rightarrow> int \<times> int \<times> int" where
  "ord2ymd ordinal =
     (let n0 = ordinal - 1;
          n400 = n0 div 146097; r400 = n0 mod 146097;
          n100 = r400 div 36524; r100 = r400 mod 36524;
          n4 = r100 div 1461; r4 = r100 mod 1461;
          n1 = r4 div 365; n = r4 mod 365;
          y = n400 * 400 + 1 + n100 * 100 + n4 * 4 + n1
      in if n1 = 4 \<or> n100 = 4 then (y - 1, 12, 31)
         else
           (let leapyear = (n1 = 3 \<and> (n4 \<noteq> 24 \<or> n100 = 3));
                m = (n + 50) div 32;
                preceding = days_before_month m + (if 2 < m \<and> leapyear then 1 else 0)
            in if n < preceding
               then (let m' = m - 1;
                         preceding' = preceding -
                           (days_in_month m' + (if m' = 2 \<and> leapyear then 1 else 0))
                     in (y, m', n - preceding' + 1))
               else (y, m, n - preceding + 1)))"

definition year :: "datetime \<Rightarrow> int" where
  "year t = fst (ord2ymd (toordinal t))"

definition month :: "datetime \<Rightarrow> int" where
  "month t = fst (snd (ord2ymd (toordinal t)))"

definition day :: "datetime \<Rightarrow> int" where
  "day t = snd (snd (ord2ymd (toordinal t)))"

text \<open>\<open>date.weekday()\<close>: Monday is 0.\<close>

definition weekday :: "datetime \<Rightarrow> int" where
  "weekday t = (toordinal t + 6) mod 7"

text \<open>\<open>a_time.replace(microsecond=0)\<close>\<close>

definition replace_microsecond_0 :: "datetime \<Rightarrow> datetime" where
  "replace_microsecond_0 t = t - microsecond t"

text \<open>\<open>'%02d' % n\<close> and \<open>'%04d' % n\<close> for the field values of a datetime.\<close>

definition fmt_02d :: "int \<Rightarrow> string" where
  "fmt_02d n = [digit_chr (nat n div 10), digit_chr (nat n)]"

definition fmt_04d :: "int \<Rightarrow> string" where
  "fmt_04d n = [digit_chr (nat n div 1000), digit_chr (nat n div 100),
                digit_chr (nat n div 10), digit_chr (nat n)]"

text \<open>
  \<open>strftime\<close> of Python 2 refuses a year before 1900 with \<open>ValueError\<close>; the directives
  \<open>%Y %m %d %H %M %S\<close> print the fields zero-padded. The two formats the code uses:
\<close>

definition strftime_YmdH :: "datetime \<Rightarrow> error + string" where
  "strftime_YmdH t =
     (if year t < 1900 then Inl ValueError
      else Inr (fmt_04d (year t) @ fmt_02d (month t) @ fmt_02d (day t) @ fmt_02d (hour t)))"

definition strftime_iso :: "datetime \<Rightarrow> error + string" where
  "strftime_iso t =
     (if year t < 1900 then Inl ValueError
      else Inr (fmt_04d (year t) @ ''-'' @ fmt_02d (month t) @ ''-'' @ fmt_02d (day t) @ ''T'' @
                fmt_02d (hour t) @ '':'' @ fmt_02d (minute t) @ '':'' @ fmt_02d (second t)))"

text \<open>
  \<open>dt - timedelta\<close> and \<open>dt + timedelta\<close>, the timedelta given in microseconds:
  \<open>OverflowError\<close> when the result is no datetime.
\<close>

definition datetime_add :: "datetime \<Rightarrow> int \<Rightarrow> error + datetime" where
  "datetime_add t delta =
     (if valid_datetime (t + delta) then Inr (t + delta) else Inl OverflowError)"

definition timedelta_minutes :: "int \<Rightarrow> int" where
  "timedelta_minutes m = m * us_per_minute"

text \<open>ffe\_time.py: \<open>mark_utc\<close> labels a time as UTC (a datetime is never falsy).\<close>

definition mark_utc :: "datetime \<Rightarrow> datetime" where
  "mark_utc a_time = a_time"

text \<open>ffe\_time.py: \<open>rfc1123_from_utc\<close>.\<close>

definition rfc1123_from_utc :: "datetime \<Rightarrow> string" where
  "rfc1123_from_utc dt =
     (let wd = [''Mon'', ''Tue'', ''Wed'', ''Thu'', ''Fri'', ''Sat'', ''Sun''] ! nat (weekday dt);
          mon = [''Jan'', ''Feb'', ''Mar'', ''Apr'', ''May'', ''Jun'', ''Jul'', ''Aug'', ''Sep'',
                 ''Oct'', ''Nov'', ''Dec''] ! nat (month dt - 1)
      in wd @ '', '' @ fmt_02d (day dt) @ '' '' @ mon @ '' '' @ fmt_04d (year dt) @ '' '' @
         fmt_02d (hour dt) @ '':'' @ fmt_02d (minute dt) @ '':'' @ fmt_02d (second dt) @ '' GMT'')"

section \<open>Library functions\<close>

text \<open>
  Functions of the Python standard library that the repository calls and does not
  define are parameters of the model:
  \<^item> \<open>md5\<close>: \<open>hashlib.md5\<close> of a byte string, as a hexadecimal digest;
  \<^item> \<open>strptime_rfc1123\<close>: \<open>datetime.strptime(string, '%a, %d %b %Y %H:%M:%S GMT')\<close>,
    which raises \<open>ValueError\<close> on a string of another shape;
  \<^item> \<open>json_dumps\<close> and \<open>json_loads\<close>: \<open>json.dumps\<close> and \<open>json.loads\<close>, over the values
    \<open>json\<close> (a dictionary is the list of its items); \<open>json.loads\<close> raises \<open>ValueError\<close> on
    a string that is no JSON text.
\<close>

datatype json = JNull | JNum int | JStr string | JArr "json list" | JObj "(string \<times> json) list"

record libs =
  md5 :: "string \<Rightarrow> string"
  strptime_rfc1123 :: "string \<Rightarrow> error + datetime"
  json_dumps :: "json \<Rightarrow> string"
  json_loads :: "string \<Rightarrow> error + json"

text \<open>ffe\_time.py: \<open>utc_from_rfc1123\<close>.\<close>

definition utc_from_rfc1123 :: "'a libs_scheme \<Rightarrow> string \<Rightarrow> error + datetime" where
  "utc_from_rfc1123 L s =
     (case strptime_rfc1123 L s of Inl e \<Rightarrow> Inl e | Inr dt \<Rightarrow> Inr (mark_utc dt))"

section \<open>Instances of the library functions\<close>

text \<open>
  For statements about concrete requests the library functions get instances.
  \<open>md5_hexdigest\<close> is MD5 as RFC 1321 defines it (what \<open>hashlib.md5(s).hexdigest()\<close>
  computes): the message is padded with the byte \<open>0x80\<close>, zero bytes and its length in
  bits to a multiple of 64 bytes, read as little-endian 32-bit words, and each block of
  16 words is mixed into the state of four words in 64 steps.
\<close>

definition md5_K :: "32 word list" where
  "md5_K =
     [0xd76aa478, 0xe8c7b756, 0x242070db, 0xc1bdceee, 0xf57c0faf, 0x4787c62a, 0xa8304613,
      0xfd469501, 0x698098d8, 0x8b44f7af, 0xffff5bb1, 0x895cd7be, 0x6b901122, 0xfd987193,
      0xa679438e, 0x49b40821, 0xf61e2562, 0xc040b340, 0x265e5a51, 0xe9b6c7aa, 0xd62f105d,
      0x02441453, 0xd8a1e681, 0xe7d3fbc8, 0x21e1cde6, 0xc33707d6, 0xf4d50d87, 0x455a14ed,
      0xa9e3e905, 0xfcefa3f8, 0x676f02d9, 0x8d2a4c8a, 0xfffa3942, 0x8771f681, 0x6d9d6122,
      0xfde5380c, 0xa4beea44, 0x4bdecfa9, 0xf6bb4b60, 0xbebfbc70, 0x289b7ec6, 0xeaa127fa,
      0xd4ef3085, 0x04881d05, 0xd9d4d039, 0xe6db99e5, 0x1fa27cf8, 0xc4ac5665, 0xf4292244,
      0x432aff97, 0xab9423a7, 0xfc93a039, 0x655b59c3, 0x8f0ccc92, 0xffeff47d, 0x85845dd1,
      0x6fa87e4f, 0xfe2ce6e0, 0xa3014314, 0x4e0811a1, 0xf7537e82, 0xbd3af235, 0x2ad7d2bb,
      0xeb86d391]"

definition md5_shifts :: "nat list" where
  "md5_shifts =
     [7, 12, 17, 22, 7, 12, 17, 22, 7, 12, 17, 22, 7, 12, 17, 22,
      5, 9, 14, 20, 5, 9, 14, 20, 5, 9, 14, 20, 5, 9, 14, 20,
      4, 11, 16, 23, 4, 11, 16, 23, 4, 11, 16, 23, 4, 11, 16, 23,
      6, 10, 15, 21, 6, 10, 15, 21, 6, 10, 15, 21, 6, 10, 15, 21]"

text \<open>The \<open>k\<close> low bytes of a number, lowest first.\<close>

fun le_bytes :: "nat \<Rightarrow> int \<Rightarrow> int list" where
  "le_bytes 0 n = []"
| "le_bytes (Suc k) n = (n mod 256) # le_bytes k (n div 256)"

definition md5_pad :: "string \<Rightarrow> int list" where
  "md5_pad s =
     (let bytes = map of_char s; n = length bytes
      in bytes @ [128] @ replicate ((119 - n mod 64) mod 64) 0 @ le_bytes 8 (8 * int n))"

fun le_words :: "int list \<Rightarrow> 32 word list" where
  "le_words (a # b # c # d # r) =
     word_of_int (a + 256 * b + 65536 * c + 16777216 * d) # le_words r"
| "le_words r = []"

definition md5_step ::
  "32 word list \<Rightarrow> 32 word \<times> 32 word \<times> 32 word \<times> 32 word \<Rightarrow> nat \<Rightarrow>
     32 word \<times> 32 word \<times> 32 word \<times> 32 word" where
  "md5_step M st i =
     (case st of (A, B, C, D) \<Rightarrow>
       (let (F, g) =
              (if i < 16 then ((B AND C) OR (NOT B AND D), i)
               else if i < 32 then ((D AND B) OR (NOT D AND C), (5 * i + 1) mod 16)
               else if i < 48 then (B XOR C XOR D, (3 * i + 5) mod 16)
               else (C XOR (B OR NOT D), (7 * i) mod 16));
            F' = F + A + md5_K ! i + M ! g
        in (D, B + word_rotl (md5_shifts ! i) F', B, C)))"

definition md5_block ::
  "32 word \<times> 32 word \<times> 32 word \<times> 32 word \<Rightarrow> 32 word list \<Rightarrow>
     32 word \<times> 32 word \<times> 32 word \<times> 32 word" where
  "md5_block h M =
     (case (h, foldl (md5_step M) h [0..<64]) of
        ((a0, b0, c0, d0), (A, B, C, D)) \<Rightarrow> (a0 + A, b0 + B, c0 + C, d0 + D))"

fun blocks16 :: "32 word list \<Rightarrow> nat \<Rightarrow> 32 word list list" where
  "blocks16 ws 0 = []"
| "blocks16 ws (Suc k) = take 16 ws # blocks16 (drop 16 ws) k"

definition hex_digit :: "int \<Rightarrow> char" where
  "hex_digit n = (if n < 10 then char_of (48 + n) else char_of (87 + n))"

definition hex_le :: "32 word \<Rightarrow> string" where
  "hex_le w =
     concat (map (\<lambda>b. [hex_digit (b div 16), hex_digit (b mod 16)]) (le_bytes 4 (uint w)))"

definition md5_hexdigest :: "string \<Rightarrow> string" where
  "md5_hexdigest s =
     (let ws = le_words (md5_pad s);
          (a, b, c, d) = foldl md5_block (0x67452301, 0xefcdab89, 0x98badcfe, 0x10325476)
                            (blocks16 ws (length ws div 16))
      in hex_le a @ hex_le b @ hex_le c @ hex_le d)"

text \<open>
  \<open>strptime_strict\<close> reads a string of exactly the shape \<open>rfc1123_from_utc\<close> prints
  (\<open>Tue, 06 May 2014 12:06:00 GMT\<close>: names as printed, two digits for the day and the
  times, four for the year) as \<open>datetime.strptime\<close> does, with the library's conversion
  of a date to its ordinal; the day of the week is not compared with the date. Any other
  string is refused with \<open>ValueError\<close> (the library reads some of them).
\<close>

definition is_leap :: "int \<Rightarrow> bool" where
  "is_leap y = (y mod 4 = 0 \<and> (y mod 100 \<noteq> 0 \<or> y mod 400 = 0))"

definition days_before_year :: "int \<Rightarrow> int" where
  "days_before_year y = (let p = y - 1 in p * 365 + p div 4 - p div 100 + p div 400)"

definition ymd2ord :: "int \<Rightarrow> int \<Rightarrow> int \<Rightarrow> int" where
  "ymd2ord y m d =
     days_before_year y + days_before_month m + (if 2 < m \<and> is_leap y then 1 else 0) + d"

fun index_in :: "'a list \<Rightarrow> 'a \<Rightarrow> nat option" where
  "index_in [] x = None"
| "index_in (y # ys) x = (if x = y then Some 0 else map_option Suc (index_in ys x))"

definition digits_of :: "string \<Rightarrow> int option" where
  "digits_of ds = (if ds \<noteq> [] \<and> list_all is_digit ds then Some (digits_val ds) else None)"

definition strptime_strict :: "string \<Rightarrow> error + datetime" where
  "strptime_strict s =
     (let part = (\<lambda>i n. take n (drop i s)) in
      if length s = 29 \<and> part 3 2 = '', '' \<and> part 7 1 = '' '' \<and> part 11 1 = '' '' \<and>
         part 16 1 = '' '' \<and> part 19 1 = '':'' \<and> part 22 1 = '':'' \<and> part 25 4 = '' GMT''
      then
        (case (index_in [''Mon'', ''Tue'', ''Wed'', ''Thu'', ''Fri'', ''Sat'', ''Sun''] (part 0 3),
               digits_of (part 5 2),
               index_in [''Jan'', ''Feb'', ''Mar'', ''Apr'', ''May'', ''Jun'', ''Jul'', ''Aug'',
                         ''Sep'', ''Oct'', ''Nov'', ''Dec''] (part 8 3),
               digits_of (part 12 4), digits_of (part 17 2), digits_of (part 20 2),
               digits_of (part 23 2)) of
           (Some wd, Some d, Some mi, Some y, Some hh, Some mm, Some ss) \<Rightarrow>
             (let m = int mi + 1 in
              if 1 \<le> y \<and> 1 \<le> d \<and> d \<le> days_in_month m + (if m = 2 \<and> is_leap y then 1 else 0) \<and>
                 hh \<le> 23 \<and> mm \<le> 59 \<and> ss \<le> 59
              then Inr ((ymd2ord y m d - 1) * us_per_day + hh * us_per_hour +
                        mm * us_per_minute + ss * us_per_second)
              else Inl ValueError)
         | _ \<Rightarrow> Inl ValueError)
      else Inl ValueError)"

text \<open>
  \<open>dumps_plain\<close> prints a value as \<open>json.dumps\<close> does with its default separators, the
  items of a dictionary in the order given, and quotes and backslashes escaped (the
  library also escapes control and non-ASCII characters, which the strings printed here
  do not hold). \<open>loads_table\<close> reads the texts of a table and refuses any other text.
\<close>

fun dumps_plain :: "json \<Rightarrow> string" where
  "dumps_plain JNull = ''null''"
| "dumps_plain (JNum i) = str_int i"
| "dumps_plain (JStr s) =
     [CHR 0x22] @ concat (map (\<lambda>c. if c = CHR 0x22 \<or> c = CHR 0x5C then [CHR 0x5C, c] else [c]) s) @
     [CHR 0x22]"
| "dumps_plain (JArr xs) = ''['' @ str_join '', '' (map dumps_plain xs) @ '']''"
| "dumps_plain (JObj items) =
     ''{'' @ str_join '', '' (map (\<lambda>(k, v). dumps_plain (JStr k) @ '': '' @ dumps_plain v) items) @ ''}''"

definition loads_table :: "(string \<times> json) list \<Rightarrow> string \<Rightarrow> error + json" where
  "loads_table tbl s = (case map_of tbl s of None \<Rightarrow> Inl ValueError | Some j \<Rightarrow> Inr j)"

definition py_libs :: libs where
  "py_libs = \<lparr>md5 = md5_hexdigest, strptime_rfc1123 = strptime_strict,
              json_dumps = dumps_plain, json_loads = loads_table [(''{}'', JObj [])]\<rparr>"

section \<open>Utilities for http authentication (ffe\_utils.py)\<close>

definition md5_hash :: "'a libs_scheme \<Rightarrow> string list \<Rightarrow> string" where
  "md5_hash L components = md5 L (str_join '':'' components)"

text \<open>
  \<open>dict_from_paramslist\<close> collects the matches of the pattern
  \<open>(\w+)= ?"?([\w.@/]+)"?\<close> with \<open>findall\<close> and makes a dictionary of them.
  \<open>match_param\<close> is one attempt to match at the start of a string: the longest run of
  word characters, \<open>=\<close>, an optional space, an optional quote, the longest non-empty
  run of value characters and an optional quote; it returns the two groups and the
  number of characters matched. (A shorter run of word characters is never followed by
  \<open>=\<close>, and a space or quote left unconsumed is no value character, so backtracking
  finds no other match.)
\<close>

definition is_value_char :: "char \<Rightarrow> bool" where
  "is_value_char c = (is_word c \<or> c = CHR ''.'' \<or> c = CHR ''@'' \<or> c = CHR ''/'')"

definition skip_optional :: "char \<Rightarrow> string \<Rightarrow> string" where
  "skip_optional c s = (case s of [] \<Rightarrow> [] | x # r \<Rightarrow> if x = c then r else s)"

definition match_param :: "string \<Rightarrow> ((string \<times> string) \<times> nat) option" where
  "match_param s =
     (let k = takeWhile is_word s; r1 = dropWhile is_word s in
      if k = [] then None
      else (case r1 of
              [] \<Rightarrow> None
            | c # r2 \<Rightarrow>
                if c \<noteq> CHR ''='' then None
                else (let r3 = skip_optional CHR 0x22 (skip_optional CHR '' '' r2);
                          v = takeWhile is_value_char r3;
                          r4 = skip_optional CHR 0x22 (dropWhile is_value_char r3)
                      in if v = [] then None
                         else Some ((k, v), length s - length r4))))"

text \<open>
  \<open>findall\<close>: scan from the left; after a match continue behind it, otherwise one
  character further. The first argument counts the characters of the last match that
  are still to be skipped.
\<close>

fun findall_params :: "nat \<Rightarrow> string \<Rightarrow> (string \<times> string) list" where
  "findall_params skip [] = []"
| "findall_params (Suc skip) (c # cs) = findall_params skip cs"
| "findall_params 0 (c # cs) =
     (case match_param (c # cs) of
        Some (kv, n) \<Rightarrow> kv # findall_params (n - 1) cs
      | None \<Rightarrow> findall_params 0 cs)"

text \<open>\<open>dict(pairs)\<close>: a later pair replaces an earlier one with the same key.\<close>

definition dict_from_paramslist :: "string \<Rightarrow> (string \<rightharpoonup> string)" where
  "dict_from_paramslist paramslist = map_of (rev (findall_params 0 paramslist))"

text \<open>
  \<open>paramslist_from_dict\<close>: the dictionary is given as the list of its items in the order
  \<open>iteritems()\<close> yields them.
\<close>

definition paramslist_from_dict :: "(string \<times> string) list \<Rightarrow> string" where
  "paramslist_from_dict dictionary =
     str_join '', '' (map (\<lambda>(key, val). key @ ''='' @ [CHR 0x22] @ val @ [CHR 0x22]) dictionary)"

section \<open>Data types of a serialization (rest\_resources.py)\<close>

text \<open>
  \<open>class DataType: xml, json = range(2)\<close>: a data type is an index into the list
  \<open>DataType.s\<close> of media types.
\<close>

type_synonym data_type = nat

definition json :: data_type where "json = 1"

definition DataType_s :: "string list" where
  "DataType_s = [''application/xml'', ''application/json'']"

text \<open>The loop of \<open>DataType.type_for_string\<close> over the indices, from \<open>index\<close> on.\<close>

fun type_for_string_from :: "nat \<Rightarrow> string list \<Rightarrow> string \<Rightarrow> data_type option" where
  "type_for_string_from index [] str = None"
| "type_for_string_from index (x # xs) str =
     (if str = x then Some index else type_for_string_from (Suc index) xs str)"

definition type_for_string :: "string \<Rightarrow> data_type option" where
  "type_for_string str = type_for_string_from 0 DataType_s str"

section \<open>Identifier grammars (rest\_resources.py)\<close>

text \<open>
  The three compiled patterns of the source, each used through \<open>pattern.match(s)\<close>:
  the match is anchored at the start of the string, and \<open>$\<close> matches at the end of
  the string or just before a newline that ends it. A repetition \<open>{1,19}\<close> of a
  character class followed by \<open>$\<close> matches when some prefix of 1 to 19 characters of
  the class is followed by such an end.
\<close>

definition at_dollar :: "string \<Rightarrow> bool" where
  "at_dollar rest = (rest = [] \<or> rest = [CHR 0x0A])"

definition rep_1_19 :: "(char \<Rightarrow> bool) \<Rightarrow> string \<Rightarrow> bool" where
  "rep_1_19 P s =
     list_ex (\<lambda>n. n \<le> length s \<and> list_all P (take n s) \<and> at_dollar (drop n s)) [1..<20]"

text \<open>\<open>Resource.identifier_regex = re.compile('[0-9]{1,19}$')\<close>\<close>

definition Resource_identifier_regex :: "string \<Rightarrow> bool" where
  "Resource_identifier_regex s = rep_1_19 is_digit s"

text \<open>\<open>Catalog.identifier_regex = re.compile('[A-Z]\w{1,19}$')\<close>\<close>

definition Catalog_identifier_regex :: "string \<Rightarrow> bool" where
  "Catalog_identifier_regex s =
     (case s of [] \<Rightarrow> False | c # r \<Rightarrow> is_upper c \<and> rep_1_19 is_word r)"

text \<open>\<open>PublicResource.identifier_regex = re.compile('\w{1,19}$')\<close>\<close>

definition PublicResource_identifier_regex :: "string \<Rightarrow> bool" where
  "PublicResource_identifier_regex s = rep_1_19 is_word s"

text \<open>
  \<open>Resource.valid_identifier\<close>, for a class whose pattern is \<open>regex\<close>: the identifier
  itself is returned when it matches.
\<close>

definition Resource_valid_identifier :: "(string \<Rightarrow> bool) \<Rightarrow> pyid \<Rightarrow> error + pyid" where
  "Resource_valid_identifier regex identifier =
     (if identifier = PyNone \<or> \<not> regex (py_str identifier)
      then Inl NoValidIdentifierError
      else Inr identifier)"

text \<open>
  \<open>User.valid_identifier\<close> and \<open>UserResource.valid_identifier\<close> (the same body):
  \<open>None\<close> passes as \<open>None\<close>, anything else is checked as a string by the superclass
  and converted with \<open>int\<close>.
\<close>

definition User_valid_identifier :: "(string \<Rightarrow> bool) \<Rightarrow> pyid \<Rightarrow> error + pyid" where
  "User_valid_identifier regex identifier =
     (if identifier = PyNone then Inr PyNone
      else (case Resource_valid_identifier regex (PyStr (py_str identifier)) of
              Inl e \<Rightarrow> Inl e
            | Inr v \<Rightarrow> (case py_int (py_str v) of
                          Inl e \<Rightarrow> Inl e
                        | Inr i \<Rightarrow> Inr (PyInt i))))"

section \<open>Translating the URL path into a resource (rest\_interface.py)\<close>

text \<open>
  What \<open>ResourceHandler.parse_request_path\<close> needs of the resource class: its
  \<open>url_name\<close> (\<open>None\<close> in the abstract superclass) and its class method
  \<open>valid_identifier\<close>.
\<close>

record locator_class =
  url_name :: "string option"
  valid_identifier :: "pyid \<Rightarrow> error + pyid"

text \<open>
  The three attributes \<open>parse_request_path\<close> sets on the handler. \<open>_resource_id\<close>
  starts as \<open>None\<close>.
\<close>

record parsed_path =
  valid_class_url :: bool
  valid_resource_id :: bool
  resource_id_raw :: pyid

definition invalid_path :: parsed_path where
  "invalid_path = \<lparr>valid_class_url = False, valid_resource_id = False, resource_id_raw = PyNone\<rparr>"

text \<open>
  \<open>parse_request_path\<close>. Only \<open>NoValidIdentifierError\<close> is caught; any other
  exception of \<open>valid_identifier\<close> reaches the caller.
\<close>

definition parse_request_path :: "'a locator_class_scheme \<Rightarrow> string \<Rightarrow> error + parsed_path" where
  "parse_request_path resource_class path =
     (let comps = str_split CHR ''/'' path in
      if length comps < 3 then Inr invalid_path
      else if Some (comps ! 2) \<noteq> url_name resource_class then Inr invalid_path
      else if length comps = 3 then Inr (invalid_path\<lparr>valid_class_url := True\<rparr>)
      else if length comps = 4 then
        (case valid_identifier resource_class (PyStr (comps ! 3)) of
           Inr v \<Rightarrow> Inr (invalid_path\<lparr>valid_resource_id := True, resource_id_raw := v\<rparr>)
         | Inl NoValidIdentifierError \<Rightarrow> Inr invalid_path
         | Inl e \<Rightarrow> Inl e)
      else Inr invalid_path)"

text \<open>The property \<open>resource_id\<close>: the identifier only when it is valid.\<close>

definition resource_id :: "parsed_path \<Rightarrow> pyid" where
  "resource_id p = (if valid_resource_id p then resource_id_raw p else PyNone)"

section \<open>Requests, responses and the resource interface (rest\_interface.py)\<close>

record request =
  http_method :: string
  path :: string
  headers :: "string \<rightharpoonup> string"
  body :: string
  remote_addr :: string

record response =
  status_int :: nat
  content_type :: "string option"
  response_headers :: "(string \<times> string) list"
  out :: string


text \<open>\<open>self.error(code)\<close>: the status is set and the body cleared.\<close>

definition handler_error :: "response \<Rightarrow> nat \<Rightarrow> response" where
  "handler_error resp code = resp\<lparr>status_int := code, out := []\<rparr>"

text \<open>An \<open>ndb.Key\<close>: the kind and the identifier of an entity.\<close>

type_synonym key = "string \<times> pyid"

text \<open>
  A fetched \<open>User\<close>. \<open>has_admin_privileges\<close> is a class attribute (\<open>False\<close> in \<open>User\<close>
  itself); \<open>ha1\<close> is \<open>None\<close> until a password is set.
\<close>

record user =
  user_key :: key
  ha1 :: "string option"
  name :: "string option"
  email :: "string option"
  has_admin_privileges :: bool

text \<open>The property \<open>User.owner_key\<close>: \<open>return self.key\<close>.\<close>

definition User_owner_key :: "'a user_scheme \<Rightarrow> key option" where
  "User_owner_key self = Some (user_key self)"

text \<open>\<open>User.username\<close> and \<open>User.label\<close>.\<close>

definition username :: "'a user_scheme \<Rightarrow> string" where
  "username self = py_str (snd (user_key self))"

definition label :: "'a user_scheme \<Rightarrow> string" where
  "label self = (case name self of
                   None \<Rightarrow> username self
                 | Some n \<Rightarrow> if n = [] then username self else n)"

text \<open>
  What \<open>RestHandler\<close> asks of a resource class and of its instances (the list in the
  docstring of the class), over a store \<open>'w\<close> and instances \<open>'r\<close>. A method that writes to
  the store returns the store, also when it raises. \<open>owner_key\<close> is \<open>None\<close> for a class
  whose instances have no such attribute (\<open>hasattr\<close> is false). The four members a
  response is written from (\<open>output_of\<close>) are a record of their own, since \<open>get\<close> writes
  a \<open>Catalog\<close> with them as well.
\<close>

record ('w, 'x) output_class =
  last_modified_utc :: "'x \<Rightarrow> error + datetime"
  last_modified_http :: "'x \<Rightarrow> error + string"
  writable_data_types :: "data_type list"
  serialization_of_type :: "'w \<Rightarrow> 'x \<Rightarrow> data_type \<Rightarrow> 'w \<times> (error + string option)"

record ('w, 'r) rest_class = locator_class +
  is_publication :: bool
  cls_new :: "'w \<Rightarrow> pyid \<Rightarrow> 'w \<times> (error + 'r)"
  cls_get :: "'w \<Rightarrow> pyid \<Rightarrow> error + 'r option"
  inst_delete :: "'w \<Rightarrow> 'r \<Rightarrow> 'w \<times> (error + unit)"
  readable_data_types :: "data_type list"
  update_with_string :: "'w \<Rightarrow> 'r \<Rightarrow> string \<Rightarrow> data_type \<Rightarrow> 'w \<times> (error + 'r)"
  output_of :: "('w, 'r) output_class"
  owner_key :: "('r \<Rightarrow> key option) option"

text \<open>
  A \<open>RestHandler\<close> serving one request: its class attributes (\<open>resource_class\<close>, the
  realm and the lookup of \<open>user_class\<close>) and the attribute \<open>user\<close> that \<open>authenticate\<close>
  sets. \<open>catalog_of\<close> is \<open>Catalog.get(self.resource_class)\<close> together with the interface
  of the catalog it returns.
\<close>

record ('w, 'r, 'c) rest_handler =
  request :: request
  resource_class :: "('w, 'r) rest_class"
  realm :: string
  user_get :: "'w \<Rightarrow> pyid \<Rightarrow> error + user option"
  catalog_class :: "('w, 'c) output_class"
  catalog_get :: "'w \<Rightarrow> 'w \<times> (error + 'c option)"
  user :: "user option"

subsection \<open>Handling authentication\<close>

text \<open>
  \<open>opaque_from_nonce\<close>: the hour stamp of \<open>now\<close>, followed by the number of the
  12-minute part of the hour, hashed with the nonce and a fixed secret.
\<close>

definition date_string :: "datetime \<Rightarrow> error + string" where
  "date_string now =
     (case strftime_YmdH now of
        Inl e \<Rightarrow> Inl e
      | Inr stamp \<Rightarrow> Inr (stamp @ str_int (minute now div 12)))"

definition opaque_from_nonce :: "'a libs_scheme \<Rightarrow> string \<Rightarrow> datetime \<Rightarrow> error + string" where
  "opaque_from_nonce L nonce now =
     (case date_string now of
        Inl e \<Rightarrow> Inl e
      | Inr ds \<Rightarrow> Inr (md5_hash L [ds, nonce, ''FDhgfliubnw'']))"

text \<open>
  The check of the opaque in \<open>authenticate\<close>: against the opaque of \<open>now\<close> and, when
  that differs, against the opaque of five minutes earlier. \<open>Inr False\<close> is the branch
  "Nonce has expired".
\<close>

definition opaque_check :: "'a libs_scheme \<Rightarrow> string \<Rightarrow> string \<Rightarrow> datetime \<Rightarrow> error + bool" where
  "opaque_check L nonce opaque now =
     (case opaque_from_nonce L nonce now of
        Inl e \<Rightarrow> Inl e
      | Inr ref_opaque \<Rightarrow>
          if opaque \<noteq> ref_opaque then
            (case datetime_add now (- timedelta_minutes 5) of
               Inl e \<Rightarrow> Inl e
             | Inr now' \<Rightarrow>
                 (case opaque_from_nonce L nonce now' of
                    Inl e \<Rightarrow> Inl e
                  | Inr ref_opaque' \<Rightarrow> Inr (opaque = ref_opaque')))
          else Inr True)"

text \<open>
  \<open>authenticate\<close>. The result is the store, and either an exception or the boolean
  returned with the value of \<open>self.user\<close> afterwards. Joining the components of the
  response hash raises \<open>TypeError\<close> when \<open>ha1\<close> is \<open>None\<close>.
\<close>

definition authenticate ::
  "'a libs_scheme \<Rightarrow> datetime \<Rightarrow> 'w \<Rightarrow> ('w, 'r, 'c) rest_handler \<Rightarrow> 'w \<times> (error + bool \<times> user option)" where
  "authenticate L now w self =
     (case headers (request self) ''Authorization'' of
        None \<Rightarrow> (w, Inr (False, user self))
      | Some auth_header \<Rightarrow>
          if auth_header = [] then (w, Inr (False, user self))
          else
            (let params = dict_from_paramslist auth_header in
             case (params ''username'', params ''nonce'', params ''cnonce'', params ''nc'',
                   params ''realm'', params ''qop'', params ''uri'', params ''opaque'',
                   params ''response'') of
               (Some usern, Some nonce, Some cnonce, Some nc, Some realm', Some qop, Some uri,
                Some opaque, Some resp) \<Rightarrow>
                 if realm' \<noteq> realm self then (w, Inr (False, user self))
                 else
                   (case opaque_check L nonce opaque now of
                      Inl e \<Rightarrow> (w, Inl e)
                    | Inr False \<Rightarrow> (w, Inr (False, user self))
                    | Inr True \<Rightarrow>
                        (case user_get self w (PyStr usern) of
                           Inl NoValidIdentifierError \<Rightarrow> (w, Inr (False, None))
                         | Inl e \<Rightarrow> (w, Inl e)
                         | Inr None \<Rightarrow> (w, Inr (False, None))
                         | Inr (Some u) \<Rightarrow>
                             if uri \<noteq> path (request self) then (w, Inr (False, Some u))
                             else
                               (let ha2 = md5_hash L [http_method (request self), uri] in
                                case ha1 u of
                                  None \<Rightarrow> (w, Inl TypeError)
                                | Some h \<Rightarrow>
                                    (let ref_response = md5_hash L [h, nonce, nc, cnonce, qop, ha2]
                                     in if resp \<noteq> ref_response then (w, Inr (False, Some u))
                                        else (w, Inr (True, Some u))))))
             | _ \<Rightarrow> (w, Inr (False, user self))))"

text \<open>
  \<open>require_authentication\<close>: \<open>rnd\<close> is the number \<open>random.randint(0, 999999)\<close> draws
  and \<open>now\<close> the clock. The items of the parameter dictionary are listed as the source
  writes them.
\<close>

definition require_authentication ::
  "'a libs_scheme \<Rightarrow> datetime \<Rightarrow> nat \<Rightarrow> 'w \<Rightarrow> ('w, 'r, 'c) rest_handler \<Rightarrow> response \<Rightarrow>
     'w \<times> (error + response)" where
  "require_authentication L now rnd w self resp =
     (let nonce = str_nat rnd in
      case opaque_from_nonce L nonce now of
        Inl e \<Rightarrow> (w, Inl e)
      | Inr opaque \<Rightarrow>
          (let params = [(''realm'', realm self), (''qop'', ''auth''), (''nonce'', nonce),
                         (''opaque'', opaque)];
               auth_header = ''Digest '' @ paramslist_from_dict params
           in (w, Inr (resp\<lparr>response_headers :=
                               response_headers resp @ [(''WWW-Authenticate'', auth_header)],
                             status_int := 401\<rparr>))))"

text \<open>
  \<open>resource_is_authorized\<close>, for the value \<open>res\<close> of \<open>self.resource\<close> (\<open>None\<close> when the
  request names no instance or none is stored).
\<close>

definition resource_is_authorized :: "('w, 'r, 'c) rest_handler \<Rightarrow> 'r option \<Rightarrow> bool" where
  "resource_is_authorized self res =
     (case user self of
        None \<Rightarrow> False
      | Some u \<Rightarrow>
          if has_admin_privileges u then True
          else (case (res, owner_key (resource_class self)) of
                  (Some r, Some owner_of) \<Rightarrow> owner_of r = Some (user_key u)
                | _ \<Rightarrow> False))"

subsection \<open>Handling content\<close>

text \<open>The property \<open>input_data_type\<close>.\<close>

definition input_data_type :: "('w, 'r, 'c) rest_handler \<Rightarrow> data_type option" where
  "input_data_type self =
     (case headers (request self) ''Content-Type'' of
        None \<Rightarrow> None
      | Some type_string \<Rightarrow>
          (case type_for_string (hd (str_split CHR '';'' type_string)) of
             None \<Rightarrow> None
           | Some data_type \<Rightarrow>
               if data_type \<in> set (readable_data_types (resource_class self))
               then Some data_type else None))"

text \<open>
  \<open>output_data_type\<close>: the first loop collects the data types the entries of the Accept
  header name, the second returns the first of them the target class can write.
\<close>

definition acceptable_types :: "string \<Rightarrow> data_type list" where
  "acceptable_types accept_string =
     List.map_filter (\<lambda>accept. type_for_string (hd (str_split CHR '';'' accept)))
       (str_split CHR '','' accept_string)"

definition output_data_type :: "request \<Rightarrow> data_type list \<Rightarrow> data_type option" where
  "output_data_type req writable =
     (case headers req ''Accept'' of
        None \<Rightarrow> None
      | Some accept_string \<Rightarrow> find (\<lambda>data_type. data_type \<in> set writable)
                                 (acceptable_types accept_string))"

text \<open>
  \<open>write_output\<close>, for a resource \<open>res\<close> of a class with interface \<open>C\<close>.
  \<open>response.out.write\<close> prints a value that is no string with \<open>unicode()\<close>, so a
  serialization \<open>None\<close> is written as the text \<open>None\<close>.
\<close>

definition write_output ::
  "('w, 'x) output_class \<Rightarrow> 'w \<Rightarrow> 'x \<Rightarrow> data_type \<Rightarrow> response \<Rightarrow> 'w \<times> (error + response)" where
  "write_output C w res data_type resp =
     (let resp1 = resp\<lparr>content_type := Some (DataType_s ! data_type)\<rparr> in
      case last_modified_http C res of
        Inl e \<Rightarrow> (w, Inl e)
      | Inr lm \<Rightarrow>
          (let resp2 = resp1\<lparr>response_headers :=
                               response_headers resp1 @ [(''Last-Modified'', lm)]\<rparr> in
           case serialization_of_type C w res data_type of
             (w', Inl e) \<Rightarrow> (w', Inl e)
           | (w', Inr None) \<Rightarrow> (w', Inr (resp2\<lparr>out := out resp2 @ ''None''\<rparr>))
           | (w', Inr (Some text)) \<Rightarrow> (w', Inr (resp2\<lparr>out := out resp2 @ text\<rparr>))))"

subsection \<open>Handling http requests\<close>

text \<open>
  The property \<open>resource\<close> of the handler: the instance the path names, fetched with
  \<open>resource_class.get\<close> when the path holds a valid identifier.
\<close>

definition fetch_resource ::
  "('w, 'r, 'c) rest_handler \<Rightarrow> 'w \<Rightarrow> parsed_path \<Rightarrow> error + 'r option" where
  "fetch_resource self w p =
     (if valid_resource_id p then cls_get (resource_class self) w (resource_id p)
      else Inr None)"

text \<open>
  The end of \<open>get\<close>, once the resource to send (a catalog or an instance, of a class
  with interface \<open>C\<close>) is known: the answer 304 to a conditional request, the choice of
  the output data type, 406 when there is none, and the output.
\<close>

definition get_send ::
  "'a libs_scheme \<Rightarrow> request \<Rightarrow> ('w, 'x) output_class \<Rightarrow> 'w \<Rightarrow> 'x \<Rightarrow> response \<Rightarrow>
     'w \<times> (error + response)" where
  "get_send L req C w res resp =
     (let send =
        (case output_data_type req (writable_data_types C) of
           None \<Rightarrow> (w, Inr (handler_error resp 406))
         | Some data_type \<Rightarrow> write_output C w res data_type resp)
      in case headers req ''If-Modified-Since'' of
           None \<Rightarrow> send
         | Some modified_since \<Rightarrow>
             if modified_since = [] then send
             else (case last_modified_utc C res of
                     Inl e \<Rightarrow> (w, Inl e)
                   | Inr lm \<Rightarrow>
                       (case utc_from_rfc1123 L modified_since of
                          Inl e \<Rightarrow> (w, Inl e)
                        | Inr since \<Rightarrow>
                            if lm \<le> since
                            then (w, Inr (resp\<lparr>content_type := None, status_int := 304\<rparr>))
                            else send)))"

text \<open>
  \<open>RestHandler.get\<close>. \<open>now\<close> is the clock \<open>authenticate\<close> reads, \<open>now'\<close> and \<open>rnd\<close> the
  clock and the random number of \<open>require_authentication\<close>. For a publication
  \<open>authenticate\<close> is not called and \<open>self.user\<close> keeps its value.
\<close>

definition get_authenticated ::
  "'a libs_scheme \<Rightarrow> 'w \<Rightarrow> ('w, 'r, 'c) rest_handler \<Rightarrow> response \<Rightarrow> 'w \<times> (error + response)" where
  "get_authenticated L w self resp =
     (case parse_request_path (resource_class self) (path (request self)) of
        Inl e \<Rightarrow> (w, Inl e)
      | Inr p \<Rightarrow>
          if valid_class_url p then
            (if \<not> is_publication (resource_class self) then (w, Inr (handler_error resp 405))
             else (case catalog_get self w of
                     (w1, Inl e) \<Rightarrow> (w1, Inl e)
                   | (w1, Inr None) \<Rightarrow> (w1, Inr (handler_error resp 404))
                   | (w1, Inr (Some cat)) \<Rightarrow>
                       get_send L (request self) (catalog_class self) w1 cat resp))
          else
            (case fetch_resource self w p of
               Inl e \<Rightarrow> (w, Inl e)
             | Inr None \<Rightarrow> (w, Inr (handler_error resp 404))
             | Inr (Some res) \<Rightarrow>
                 if \<not> (is_publication (resource_class self) \<or>
                        resource_is_authorized self (Some res))
                 then (w, Inr (handler_error resp 401))
                 else get_send L (request self) (output_of (resource_class self)) w res resp))"


text \<open>
  \<open>RestHandler.put\<close>, after \<open>authenticate\<close> has succeeded. The update of an existing
  instance is \<open>put_update\<close>: \<open>update_with_string\<close> with the body of the request,
  followed by the output.
\<close>

definition put_update ::
  "('w, 'r, 'c) rest_handler \<Rightarrow> 'w \<Rightarrow> 'r \<Rightarrow> data_type \<Rightarrow> response \<Rightarrow> 'w \<times> (error + response)" where
  "put_update self w res data_type resp =
     (case update_with_string (resource_class self) w res (body (request self)) data_type of
        (w1, Inl e) \<Rightarrow> (w1, Inl e)
      | (w1, Inr res') \<Rightarrow>
          write_output (output_of (resource_class self)) w1 res' data_type resp)"

definition put_create ::
  "('w, 'r, 'c) rest_handler \<Rightarrow> 'w \<Rightarrow> parsed_path \<Rightarrow> data_type \<Rightarrow> response \<Rightarrow>
     'w \<times> (error + response)" where
  "put_create self w p data_type resp =
     (if is_publication (resource_class self) then
        (if \<not> (case user self of None \<Rightarrow> False | Some u \<Rightarrow> has_admin_privileges u)
         then (w, Inr (handler_error resp 401))
         else (case cls_new (resource_class self) w (resource_id p) of
                 (w1, Inl NoValidIdentifierError) \<Rightarrow> (w1, Inr (handler_error resp 400))
               | (w1, Inl e) \<Rightarrow> (w1, Inl e)
               | (w1, Inr res) \<Rightarrow>
                   (case put_update self w1 res data_type resp of
                      (w2, Inl e) \<Rightarrow> (w2, Inl e)
                    | (w2, Inr resp') \<Rightarrow> (w2, Inr (resp'\<lparr>status_int := 201\<rparr>)))))
      else (w, Inr (handler_error resp 404)))"

definition put_authenticated ::
  "'a libs_scheme \<Rightarrow> 'w \<Rightarrow> ('w, 'r, 'c) rest_handler \<Rightarrow> response \<Rightarrow> 'w \<times> (error + response)" where
  "put_authenticated L w self resp =
     (case input_data_type self of
        None \<Rightarrow> (w, Inr (handler_error resp 415))
      | Some data_type \<Rightarrow>
          (case parse_request_path (resource_class self) (path (request self)) of
             Inl e \<Rightarrow> (w, Inl e)
           | Inr p \<Rightarrow>
               (case fetch_resource self w p of
                  Inl e \<Rightarrow> (w, Inl e)
                | Inr (Some res) \<Rightarrow>
                    if \<not> resource_is_authorized self (Some res)
                    then (w, Inr (handler_error resp 401))
                    else
                      (case headers (request self) ''If-Unmodified-Since'' of
                         None \<Rightarrow> (w, Inr (handler_error resp 409))
                       | Some unmodified_since \<Rightarrow>
                           if unmodified_since = [] then (w, Inr (handler_error resp 409))
                           else
                             (case last_modified_utc (output_of (resource_class self)) res of
                                Inl e \<Rightarrow> (w, Inl e)
                              | Inr lm \<Rightarrow>
                                  (case utc_from_rfc1123 L unmodified_since of
                                     Inl e \<Rightarrow> (w, Inl e)
                                   | Inr since \<Rightarrow>
                                       if lm \<le> since
                                       then put_update self w res data_type resp
                                       else (w, Inr (handler_error resp 412)))))
                | Inr None \<Rightarrow> put_create self w p data_type resp)))"

definition RestHandler_put ::
  "'a libs_scheme \<Rightarrow> datetime \<Rightarrow> datetime \<Rightarrow> nat \<Rightarrow> 'w \<Rightarrow> ('w, 'r, 'c) rest_handler \<Rightarrow> response \<Rightarrow>
     'w \<times> (error + response)" where
  "RestHandler_put L now now' rnd w self resp =
     (case authenticate L now w self of
        (w1, Inl e) \<Rightarrow> (w1, Inl e)
      | (w1, Inr (False, u)) \<Rightarrow> require_authentication L now' rnd w1 (self\<lparr>user := u\<rparr>) resp
      | (w1, Inr (True, u)) \<Rightarrow> put_authenticated L w1 (self\<lparr>user := u\<rparr>) resp)"

text \<open>\<open>RestHandler.delete\<close>.\<close>

definition RestHandler_delete ::
  "'a libs_scheme \<Rightarrow> datetime \<Rightarrow> datetime \<Rightarrow> nat \<Rightarrow> 'w \<Rightarrow> ('w, 'r, 'c) rest_handler \<Rightarrow> response \<Rightarrow>
     'w \<times> (error + response)" where
  "RestHandler_delete L now now' rnd w self resp =
     (case authenticate L now w self of
        (w1, Inl e) \<Rightarrow> (w1, Inl e)
      | (w1, Inr (False, u)) \<Rightarrow> require_authentication L now' rnd w1 (self\<lparr>user := u\<rparr>) resp
      | (w1, Inr (True, u)) \<Rightarrow>
          (let self1 = self\<lparr>user := u\<rparr> in
           case parse_request_path (resource_class self1) (path (request self1)) of
             Inl e \<Rightarrow> (w1, Inl e)
           | Inr p \<Rightarrow>
               (case fetch_resource self1 w1 p of
                  Inl e \<Rightarrow> (w1, Inl e)
                | Inr None \<Rightarrow> (w1, Inr (handler_error resp 404))
                | Inr (Some res) \<Rightarrow>
                    if \<not> resource_is_authorized self1 (Some res)
                    then (w1, Inr (handler_error resp 401))
                    else (case inst_delete (resource_class self1) w1 res of
                            (w2, Inl e) \<Rightarrow> (w2, Inl e)
                          | (w2, Inr _) \<Rightarrow>
                              (w2, Inr (resp\<lparr>content_type := None, status_int := 204\<rparr>))))))"

text \<open>
  The classes of the source get their \<open>valid_identifier\<close> from \<open>Resource\<close> (with the
  pattern of the class) or from \<open>User\<close> and \<open>UserResource\<close> (which keep the numeric
  pattern of \<open>Resource\<close>). \<open>grammar_class regex cls\<close> says that \<open>cls\<close> is such a class and
  \<open>regex\<close> its pattern.
\<close>

definition grammar_class :: "(string \<Rightarrow> bool) \<Rightarrow> 'a locator_class_scheme \<Rightarrow> bool" where
  "grammar_class regex cls =
     (valid_identifier cls = Resource_valid_identifier regex \<or>
      (valid_identifier cls = User_valid_identifier regex \<and> regex = Resource_identifier_regex))"

text \<open>A publication class served under the URL name \<open>station\<close>, for concrete requests.\<close>

definition station_class :: locator_class where
  "station_class = \<lparr>url_name = Some ''station'',
                     valid_identifier = Resource_valid_identifier PublicResource_identifier_regex\<rparr>"

section \<open>The datastore and the classes Resource, Catalog, PublicResource and User (rest\_resources.py)\<close>


text \<open>A \<open>Catalog\<close>: its id is the name of the cataloged class.\<close>

record catalog_obj =
  cataloged_name :: string
  class_module :: string
  catalog :: "string option"
  catalog_modified :: "datetime option"

text \<open>
  The datastore and memcache. \<open>table ds kind\<close> lists the entities of a kind with their
  ids, each with its \<open>last_modified\<close> and property values; \<open>catalogs\<close> holds the entities of
  kind \<open>Catalog\<close>, \<open>users\<close> those of kind \<open>User\<close>; \<open>memcache\<close> holds the lists of ids that
  \<open>all_ids\<close> caches.
\<close>

record 'p datastore =
  table :: "string \<Rightarrow> (pyid \<times> datetime \<times> 'p) list"
  catalogs :: "string \<Rightarrow> catalog_obj option"
  users :: "int \<Rightarrow> user option"
  memcache :: "string \<Rightarrow> pyid list option"

text \<open>
  The class attributes and hooks of a subclass of \<open>Resource\<close>: its name and module, its
  identifier pattern, the property values of a new instance, and the two methods
  subclasses override (\<open>Resource.update_with_dictionary\<close> returns \<open>False\<close>,
  \<open>Resource.dictionary_from_object\<close> returns the id alone).
\<close>

record pyclass =
  cls_name :: string
  cls_module :: string


definition json_of_id :: "pyid \<Rightarrow> json" where
  "json_of_id i = (case i of PyNone \<Rightarrow> JNull | PyStr s \<Rightarrow> JStr s | PyInt n \<Rightarrow> JNum n)"



subsection \<open>Object lifecycle and metadata of Resource\<close>








subsection \<open>Catalog\<close>

definition Catalog_put :: "datetime \<Rightarrow> 'p datastore \<Rightarrow> catalog_obj \<Rightarrow> 'p datastore \<times> catalog_obj" where
  "Catalog_put now ds self =
     (let self' = self\<lparr>catalog_modified := Some now\<rparr>
      in (ds\<lparr>catalogs := (catalogs ds)(cataloged_name self := Some self')\<rparr>, self'))"

definition Catalog_new :: "datetime \<Rightarrow> 'p datastore \<Rightarrow> 'a pyclass_scheme \<Rightarrow> 'p datastore \<times> catalog_obj" where
  "Catalog_new now ds cataloged_class =
     Catalog_put now ds \<lparr>cataloged_name = cls_name cataloged_class,
                         class_module = cls_module cataloged_class,
                         catalog = None, catalog_modified = None\<rparr>"

text \<open>\<open>Catalog.get\<close> with \<open>create=True\<close>, as every caller in the source uses it.\<close>

definition Catalog_get :: "datetime \<Rightarrow> 'p datastore \<Rightarrow> 'a pyclass_scheme \<Rightarrow> 'p datastore \<times> catalog_obj" where
  "Catalog_get now ds cataloged_class =
     (case catalogs ds (cls_name cataloged_class) of
        None \<Rightarrow> Catalog_new now ds cataloged_class
      | Some self \<Rightarrow> (ds, self))"


text \<open>
  The query of \<open>Catalog.serialization_of_type\<close>,
  \<open>query().order(-Resource.last_modified).fetch(1000)\<close>: the entities of the kind by
  descending \<open>last_modified\<close> (entities with equal time stamps in the order of the
  table), at most 1000 of them.
\<close>

definition query_by_last_modified :: "(pyid \<times> datetime \<times> 'p) list \<Rightarrow> (pyid \<times> datetime \<times> 'p) list" where
  "query_by_last_modified tbl = take 1000 (sort_key (\<lambda>entry. - fst (snd entry)) tbl)"

text \<open>One entry of the array: \<open>{'id': entry.id_, 'lm': entry.last_modified_utc.strftime(...)}\<close>.\<close>

definition catalog_entry :: "pyid \<times> datetime \<times> 'p \<Rightarrow> error + json" where
  "catalog_entry entry =
     (case strftime_iso (mark_utc (replace_microsecond_0 (fst (snd entry)))) of
        Inl e \<Rightarrow> Inl e
      | Inr lm \<Rightarrow> Inr (JObj [(''id'', json_of_id (fst entry)), (''lm'', JStr lm)]))"

fun catalog_array :: "(pyid \<times> datetime \<times> 'p) list \<Rightarrow> error + json list" where
  "catalog_array [] = Inr []"
| "catalog_array (entry # entries) =
     (case catalog_entry entry of
        Inl e \<Rightarrow> Inl e
      | Inr j \<Rightarrow> (case catalog_array entries of
                    Inl e \<Rightarrow> Inl e
                  | Inr js \<Rightarrow> Inr (j # js)))"

definition Catalog_serialization_of_type ::
  "'a libs_scheme \<Rightarrow> datetime \<Rightarrow> 'p datastore \<Rightarrow> catalog_obj \<Rightarrow> data_type \<Rightarrow>
     'p datastore \<times> (error + string option)" where
  "Catalog_serialization_of_type L now ds self data_type =
     (if data_type = json then
        (case catalog self of
           None \<Rightarrow>
             (case catalog_array (query_by_last_modified (table ds (cataloged_name self))) of
                Inl e \<Rightarrow> (ds, Inl e)
              | Inr array \<Rightarrow>
                  (let (ds', self') =
                         Catalog_put now ds (self\<lparr>catalog := Some (json_dumps L (JArr array))\<rparr>)
                   in (ds', Inr (catalog self'))))
         | Some text \<Rightarrow> (ds, Inr (Some text)))
      else (ds, Inr None))"

definition Catalog_last_modified_utc :: "catalog_obj \<Rightarrow> error + datetime" where
  "Catalog_last_modified_utc self =
     (case catalog_modified self of
        None \<Rightarrow> Inl AttributeError
      | Some t \<Rightarrow> Inr (mark_utc (replace_microsecond_0 t)))"

definition Catalog_last_modified_http :: "catalog_obj \<Rightarrow> error + string" where
  "Catalog_last_modified_http self =
     (case catalog_modified self of
        None \<Rightarrow> Inl AttributeError
      | Some t \<Rightarrow> Inr (rfc1123_from_utc t))"

subsection \<open>PublicResource\<close>





subsection \<open>Reading and writing content\<close>



subsection \<open>The classes as the handler sees them\<close>


definition Catalog_output :: "'a libs_scheme \<Rightarrow> datetime \<Rightarrow> ('p datastore, catalog_obj) output_class" where
  "Catalog_output L now =
     \<lparr>last_modified_utc = Catalog_last_modified_utc,
      last_modified_http = Catalog_last_modified_http,
      writable_data_types = [json],
      serialization_of_type = Catalog_serialization_of_type L now\<rparr>"


text \<open>
  \<open>User.get\<close>: the user stored under the number the name stands for, with the key it
  was fetched by.
\<close>

definition User_get :: "'p datastore \<Rightarrow> pyid \<Rightarrow> error + user option" where
  "User_get ds identifier =
     (case User_valid_identifier Resource_identifier_regex identifier of
        Inl e \<Rightarrow> Inl e
      | Inr (PyInt i) \<Rightarrow> Inr (map_option (\<lambda>u. u\<lparr>user_key := (''User'', PyInt i)\<rparr>) (users ds i))
      | Inr _ \<Rightarrow> Inr None)"

text \<open>
  \<open>User\<close> as the resource class of a handler. Its methods \<open>new\<close>, \<open>delete\<close> and
  \<open>update_with_string\<close> (with the password handling of \<open>User.update_with_dictionary\<close>) and
  its output are not modelled: the class takes them as parameters.
\<close>

definition User_class ::
  "string option \<Rightarrow>
   ('p datastore \<Rightarrow> pyid \<Rightarrow> 'p datastore \<times> (error + user)) \<Rightarrow>
   ('p datastore \<Rightarrow> user \<Rightarrow> 'p datastore \<times> (error + unit)) \<Rightarrow>
   ('p datastore \<Rightarrow> user \<Rightarrow> string \<Rightarrow> data_type \<Rightarrow> 'p datastore \<times> (error + user)) \<Rightarrow>
   ('p datastore, user) output_class \<Rightarrow> ('p datastore, user) rest_class" where
  "User_class url new_user delete_user update_user output_user =
     \<lparr>url_name = url,
      valid_identifier = User_valid_identifier Resource_identifier_regex,
      is_publication = False,
      cls_new = new_user,
      cls_get = User_get,
      inst_delete = delete_user,
      readable_data_types = [json],
      update_with_string = update_user,
      output_of = output_user,
      owner_key = Some User_owner_key\<rparr>"

text \<open>
  The handler of a resource class \<open>C\<close> (whose name and module are those of \<open>pycls\<close>)
  for a request, with \<open>User\<close> as its user class.
\<close>

definition rest_handler_of ::
  "'a libs_scheme \<Rightarrow> datetime \<Rightarrow> ('p datastore, 'r) rest_class \<Rightarrow> 'b pyclass_scheme \<Rightarrow> request \<Rightarrow>
     ('p datastore, 'r, catalog_obj) rest_handler" where
  "rest_handler_of L now C pycls req =
     \<lparr>request = req,
      resource_class = C,
      realm = ''tests@firstflamingo.com'',
      user_get = User_get,
      catalog_class = Catalog_output L now,
      catalog_get = (\<lambda>ds. case Catalog_get now ds pycls of (ds', cat) \<Rightarrow> (ds', Inr (Some cat))),
      user = None\<rparr>"


section \<open>The XML importer (markup.py)\<close>

















subsection \<open>Notions for the properties of a reconciliation pass\<close>







section \<open>A store and requests for concrete statements\<close>

text \<open>
  Two users without administrator privileges and an administrator. The \<open>ha1\<close> of a user
  is the MD5 digest of user name, realm and password, as the setter of \<open>User.password\<close>
  computes it (\<open>ha1_of\<close>); the passwords of the three users are \<open>wonderland\<close>,
  \<open>builder\<close> and \<open>secret\<close>.
\<close>

definition ha1_of :: "string \<Rightarrow> string \<Rightarrow> string" where
  "ha1_of usern password = md5_hash py_libs [usern, ''tests@firstflamingo.com'', password]"

definition alice :: user where
  "alice = \<lparr>user_key = (''User'', PyInt 1), ha1 = Some ''0da6ced62bfcd711f08f544dc5ee9abb'',
            name = Some ''alice'', email = None, has_admin_privileges = False\<rparr>"

definition bob :: user where
  "bob = \<lparr>user_key = (''User'', PyInt 2), ha1 = Some ''3a8f77771b37d368187d4ed57fad77dc'',
          name = None, email = None, has_admin_privileges = False\<rparr>"

definition root_user :: user where
  "root_user = \<lparr>user_key = (''User'', PyInt 3), ha1 = Some ''773ef6189acf6cb733cff52a0fc22323'',
                name = Some ''root'', email = None, has_admin_privileges = True\<rparr>"

definition demo_request :: "string \<Rightarrow> string \<Rightarrow> (string \<times> string) list \<Rightarrow> string \<Rightarrow> request" where
  "demo_request meth pth hdrs content' =
     \<lparr>http_method = meth, path = pth, headers = map_of hdrs, body = content',
      remote_addr = ''127.0.0.1''\<rparr>"

definition user_store :: "unit datastore" where
  "user_store = \<lparr>table = (\<lambda>kind. []), catalogs = (\<lambda>n. None),
                  users = (\<lambda>i. None)(1 := Some alice, 2 := Some bob, 3 := Some root_user),
                  memcache = (\<lambda>k. None)\<rparr>"

subsection \<open>Notions for content negotiation\<close>









section \<open>Properties\<close>

lemma str_split_not_Nil: "str_split sep s \<noteq> []"
  by (induction s) (auto split: list.splits)

subsection \<open>The resource locator\<close>

lemma is_digit_not_space: "is_digit c \<Longrightarrow> \<not> is_space c"
  by (auto simp: is_digit_def is_space_def Let_def)

lemma is_digit_not_sign: "is_digit c \<Longrightarrow> c \<noteq> CHR ''-'' \<and> c \<noteq> CHR ''+''"
  by (auto simp: is_digit_def)

lemma rep_1_19_shape:
  "rep_1_19 P s \<Longrightarrow> \<exists>ds rest. s = ds @ rest \<and> ds \<noteq> [] \<and> list_all P ds \<and> at_dollar rest"
  unfolding rep_1_19_def list_ex_iff
  apply clarsimp
  subgoal for n
    apply (rule exI[of _ "take n s"], rule exI[of _ "drop n s"])
    apply auto
    done
  done

lemma dropWhile_rev_last: "xs \<noteq> [] \<Longrightarrow> \<not> P (last xs) \<Longrightarrow> dropWhile P (rev xs) = rev xs"
  by (induction xs rule: rev_induct) auto

text \<open>\<open>int()\<close> accepts every string the numeric pattern accepts.\<close>

lemma py_int_digits:
  assumes "ds \<noteq> []" "list_all is_digit ds" "at_dollar rest"
  shows "py_int (ds @ rest) = Inr (digits_val ds)"
proof -
  obtain c r where ds: "ds = c # r" using assms(1) by (cases ds) auto
  have c: "is_digit c" using assms(2) ds by simp
  have l: "is_digit (last ds)" using assms(1,2) by (simp add: list_all_iff)
  have front: "dropWhile is_space (ds @ rest) = ds @ rest"
    using ds c is_digit_not_space by simp
  have bk: "dropWhile is_space (rev (ds @ rest)) = rev ds"
  proof -
    have "dropWhile is_space (rev ds) = rev ds"
      using assms(1) l is_digit_not_space by (simp add: dropWhile_rev_last)
    moreover have "\<forall>x\<in>set (rev rest). is_space x"
      using assms(3) by (auto simp: at_dollar_def is_space_def)
    ultimately show ?thesis by (simp add: dropWhile_append)
  qed
  have t: "rev (dropWhile is_space (rev (dropWhile is_space (ds @ rest)))) = ds"
    by (simp only: front bk rev_rev_ident)
  have "py_int (ds @ rest) =
          (let (neg, ds') = (if c = CHR ''-'' then (True, r)
                             else if c = CHR ''+'' then (False, r) else (False, ds))
           in if ds' \<noteq> [] \<and> list_all is_digit ds'
              then Inr (if neg then - digits_val ds' else digits_val ds')
              else Inl ValueError)"
    unfolding py_int_def t Let_def by (simp add: ds)
  then show ?thesis
    using assms(1,2) is_digit_not_sign[OF c] by simp
qed

lemma numeric_int_ok:
  "Resource_identifier_regex s \<Longrightarrow> \<exists>i. py_int s = Inr i"
  unfolding Resource_identifier_regex_def
  by (drule rep_1_19_shape) (auto simp: py_int_digits)

text \<open>
  Claim C6. For a class of the source with identifier pattern \<open>regex\<close>,
  \<open>parse_request_path\<close> never raises and has exactly three outcomes. With fewer than 3
  components, a class segment other than the \<open>url_name\<close> of the class, or more than 4
  components, neither flag is set. With exactly 3 components the request is a valid
  class-level request without identifier. With exactly 4 components the request is a
  valid instance request if and only if the identifier matches the pattern of the class,
  and otherwise neither flag is set.
\<close>

theorem parse_request_path_outcomes:
  assumes "grammar_class regex cls"
  shows "\<exists>p. parse_request_path cls pth = Inr p \<and>
     (let comps = str_split CHR ''/'' pth in
       if length comps < 3 \<or> Some (comps ! 2) \<noteq> url_name cls \<or> 4 < length comps
       then p = invalid_path
       else if length comps = 3
       then valid_class_url p \<and> \<not> valid_resource_id p \<and> resource_id p = PyNone
       else (valid_resource_id p \<longleftrightarrow> regex (comps ! 3)) \<and> \<not> valid_class_url p \<and>
            (\<not> regex (comps ! 3) \<longrightarrow> p = invalid_path))"
  using assms numeric_int_ok[of "str_split CHR ''/'' pth ! 3"]
  by (auto simp: grammar_class_def parse_request_path_def Let_def invalid_path_def resource_id_def
      Resource_valid_identifier_def User_valid_identifier_def split: sum.splits error.splits if_splits)

lemma station_parse:
  "parse_request_path station_class ''/api/station/ut'' =
     Inr \<lparr>valid_class_url = False, valid_resource_id = True, resource_id_raw = PyStr ''ut''\<rparr>"
  by code_simp

theorem parse_request_path_outcomes_witness:
  "grammar_class PublicResource_identifier_regex station_class \<and>
   (\<exists>p. parse_request_path station_class ''/api/station/ut'' = Inr p \<and>
        valid_resource_id p \<and> \<not> valid_class_url p \<and> resource_id p = PyStr ''ut'')"
proof -
  have h: "grammar_class PublicResource_identifier_regex station_class"
    by (simp add: grammar_class_def station_class_def)
  from parse_request_path_outcomes[OF h, of "''/api/station/ut''"]
  obtain p where "parse_request_path station_class ''/api/station/ut'' = Inr p" by blast
  then show ?thesis using h station_parse by (auto simp: resource_id_def)
qed

subsection \<open>The reconciliation pass of the importer\<close>




























subsection \<open>Authorization over users\<close>

lemma users_ha1:
  "ha1 alice = Some (ha1_of ''1'' ''wonderland'')"
  "ha1 bob = Some (ha1_of ''2'' ''builder'')"
  "ha1 root_user = Some (ha1_of ''3'' ''secret'')"
  by code_simp+

lemma User_get_key:
  "User_get ds a = Inr (Some u) \<Longrightarrow>
     \<exists>i v. user_key u = (''User'', PyInt i) \<and> users ds i = Some v \<and>
           u = v\<lparr>user_key := (''User'', PyInt i)\<rparr>"
  by (auto simp: User_get_def split: sum.splits pyid.splits)

text \<open>
  Claim C10. A \<open>User\<close> records itself as its owner: \<open>owner_key\<close> is the key of the user.
  So for a handler whose resource class is \<open>User\<close> and whose authenticated principal \<open>u\<close>
  has no administrator privileges, a stored user \<open>r\<close> is authorized exactly when its key
  is the key of \<open>u\<close>, that is exactly when \<open>r\<close> is \<open>u\<close> itself: the principal is authorized
  over its own resource and over no other, and no other such principal is authorized
  over it.
\<close>

theorem user_authorized_over_own_only:
  assumes "owner_key (resource_class self) = Some User_owner_key"
      and "user self = Some u" and "\<not> has_admin_privileges u"
      and "User_get ds a = Inr (Some u)" and "User_get ds b = Inr (Some r)"
  shows "User_owner_key r = Some (user_key r) \<and>
         (resource_is_authorized self (Some r) \<longleftrightarrow> user_key r = user_key u) \<and>
         (resource_is_authorized self (Some r) \<longleftrightarrow> r = u)"
proof -
  have 1: "resource_is_authorized self (Some r) \<longleftrightarrow> user_key r = user_key u"
    using assms(1-3) by (simp add: resource_is_authorized_def User_owner_key_def)
  have 2: "user_key r = user_key u \<longleftrightarrow> r = u"
    using User_get_key[OF assms(4)] User_get_key[OF assms(5)] by auto
  show ?thesis using 1 2 by (simp add: User_owner_key_def)
qed

lemma user_store_get:
  "User_get user_store (PyStr ''1'') = Inr (Some alice)"
  "User_get user_store (PyInt 2) = Inr (Some bob)"
  by code_simp+

theorem user_authorized_over_own_only_witness:
  "\<forall>new_user delete_user update_user output_user.
     (let self = (rest_handler_of py_libs 0
                    (User_class (Some ''user'') new_user delete_user update_user output_user)
                    \<lparr>cls_name = ''User'', cls_module = ''rest_resources''\<rparr>
                    (demo_request ''GET'' ''/api/user/2'' [] ''''))\<lparr>user := Some alice\<rparr>
      in owner_key (resource_class self) = Some User_owner_key \<and>
         user self = Some alice \<and> \<not> has_admin_privileges alice \<and>
         User_get user_store (PyStr ''1'') = Inr (Some alice) \<and>
         User_get user_store (PyInt 2) = Inr (Some bob) \<and>
         resource_is_authorized self (Some alice) \<and>
         \<not> resource_is_authorized self (Some bob))"
proof (intro allI)
  fix new_user delete_user update_user output_user
  let ?self = "(rest_handler_of py_libs 0
                    (User_class (Some ''user'') new_user delete_user update_user output_user)
                    \<lparr>cls_name = ''User'', cls_module = ''rest_resources''\<rparr>
                    (demo_request ''GET'' ''/api/user/2'' [] ''''))\<lparr>user := Some alice\<rparr>"
  have a: "owner_key (resource_class ?self) = Some User_owner_key" "user ?self = Some alice"
          "\<not> has_admin_privileges alice"
    by (simp_all add: rest_handler_of_def User_class_def alice_def)
  have ne: "bob \<noteq> alice" by (simp add: alice_def bob_def)
  show "let self = ?self in owner_key (resource_class self) = Some User_owner_key \<and>
         user self = Some alice \<and> \<not> has_admin_privileges alice \<and>
         User_get user_store (PyStr ''1'') = Inr (Some alice) \<and>
         User_get user_store (PyInt 2) = Inr (Some bob) \<and>
         resource_is_authorized self (Some alice) \<and>
         \<not> resource_is_authorized self (Some bob)"
    unfolding Let_def
    using a user_store_get ne
      user_authorized_over_own_only[OF a user_store_get(1) user_store_get(1)]
      user_authorized_over_own_only[OF a user_store_get(1) user_store_get(2)]
    by blast
qed

subsection \<open>Content negotiation of GET\<close>








text \<open>
  \<open>get\<close> comes to this negotiation for an instance that exists and may be read, and for
  the catalog of a publication.
\<close>

lemma get_instance_reaches_send:
  assumes "parse_request_path (resource_class self) (path (request self)) = Inr p"
      and "\<not> valid_class_url p"
      and "fetch_resource self w p = Inr (Some res)"
      and "is_publication (resource_class self) \<or> resource_is_authorized self (Some res)"
  shows "get_authenticated L w self resp =
           get_send L (request self) (output_of (resource_class self)) w res resp"
  using assms by (simp add: get_authenticated_def)

lemma get_catalog_reaches_send:
  assumes "parse_request_path (resource_class self) (path (request self)) = Inr p"
      and "valid_class_url p" and "is_publication (resource_class self)"
      and "catalog_get self w = (w1, Inr (Some cat))"
  shows "get_authenticated L w self resp =
           get_send L (request self) (catalog_class self) w1 cat resp"
  using assms by (simp add: get_authenticated_def)





end
